theory Spec2Isabelle
  imports Complex_Main
begin

section \<open>Tokens (token\_type.py)\<close>

datatype token_type =
    AND | CLASS | ELSE | FALSE | FUN | FOR | IF | NIL | OR | PRINT | RETURN | SUPER
  | THIS | TRUE | VAR | WHILE
  | LEFT_PAREN | RIGHT_PAREN | LEFT_BRACE | RIGHT_BRACE | COMMA | DOT | MINUS | PLUS
  | SEMICOLON | SLASH | STAR
  | BANG | BANG_EQUAL | EQUAL | EQUAL_EQUAL | GREATER | GREATER_EQUAL | LESS | LESS_EQUAL
  | IDENTIFIER | STRING | NUMBER
  | EOF

section \<open>Runtime values\<close>

text \<open>
  A Lox number is a Python \<open>float\<close>. A float is modelled by the value it denotes: a
  finite double is the rational it stands for (\<open>Finite 0\<close> is \<open>0.0\<close>), and the four
  values without a rational are constructors of their own. Comparisons of floats are
  exact in IEEE-754, so they are defined here; the rounding arithmetic and the decimal
  printing of the host are parameters (record \<open>host\<close> below).
\<close>

datatype pyfloat = Finite rat | NegZero | PosInf | NegInf | NaN

text \<open>
  The Python objects a Lox expression can evaluate to: \<open>None\<close>, \<open>bool\<close>, \<open>float\<close>,
  \<open>str\<close>, the one \<open>ClockFunction\<close> object of the interpreter, and references to
  \<open>LoxFunction\<close>, \<open>LoxClass\<close> and \<open>LoxInstance\<close> objects. A reference is the
  object's identity: its index in the store of its kind.
\<close>

datatype "value" =
    VNone
  | VBool bool
  | VFloat pyfloat
  | VStr string
  | VClock
  | VFunction nat
  | VClass nat
  | VInstance nat

record token =
  ttype :: token_type
  lexeme :: string
  literal :: "value"
  line :: nat

text \<open>\<open>Token.__init__\<close>.\<close>

definition Token :: "token_type \<Rightarrow> string \<Rightarrow> value \<Rightarrow> nat \<Rightarrow> token" where
  "Token t lx lit n = \<lparr>ttype = t, lexeme = lx, literal = lit, line = n\<rparr>"

subsection \<open>Float comparisons\<close>

text \<open>The position of a float on the extended real line; \<open>nan\<close> has none.\<close>

fun float_key :: "pyfloat \<Rightarrow> (int \<times> rat) option" where
  "float_key (Finite q) = Some (0, q)"
| "float_key NegZero = Some (0, 0)"
| "float_key PosInf = Some (1, 0)"
| "float_key NegInf = Some (- 1, 0)"
| "float_key NaN = None"

definition float_eq :: "pyfloat \<Rightarrow> pyfloat \<Rightarrow> bool" where
  "float_eq a b = (case float_key a of None \<Rightarrow> False
     | Some x \<Rightarrow> (case float_key b of None \<Rightarrow> False | Some y \<Rightarrow> x = y))"

definition float_lt :: "pyfloat \<Rightarrow> pyfloat \<Rightarrow> bool" where
  "float_lt a b = (case float_key a of None \<Rightarrow> False
     | Some (i, x) \<Rightarrow> (case float_key b of None \<Rightarrow> False
         | Some (j, y) \<Rightarrow> i < j \<or> (i = j \<and> x < y)))"

definition float_le :: "pyfloat \<Rightarrow> pyfloat \<Rightarrow> bool" where
  "float_le a b = (float_lt a b \<or> float_eq a b)"

definition float_gt :: "pyfloat \<Rightarrow> pyfloat \<Rightarrow> bool" where
  "float_gt a b = float_lt b a"

definition float_ge :: "pyfloat \<Rightarrow> pyfloat \<Rightarrow> bool" where
  "float_ge a b = float_le b a"

fun float_neg :: "pyfloat \<Rightarrow> pyfloat" where
  "float_neg (Finite q) = (if q = 0 then NegZero else Finite (- q))"
| "float_neg NegZero = Finite 0"
| "float_neg PosInf = NegInf"
| "float_neg NegInf = PosInf"
| "float_neg NaN = NaN"

text \<open>Python's \<open>bool\<close> is a subclass of \<open>int\<close>: \<open>True\<close> is 1 and \<open>False\<close> is 0.\<close>

definition int_of_bool :: "bool \<Rightarrow> pyfloat" where
  "int_of_bool b = Finite (if b then 1 else 0)"

subsection \<open>Python's \<open>==\<close> on these objects\<close>

text \<open>
  None of the classes of interpreter.py defines \<open>__eq__\<close>, so their objects compare by
  identity. \<open>str\<close> compares by contents, \<open>float\<close> by IEEE-754 equality, and a
  \<open>bool\<close> compares with a \<open>float\<close> as the integer it is.
\<close>

definition py_eq :: "value \<Rightarrow> value \<Rightarrow> bool" where
  "py_eq a b =
     (case a of
        VNone \<Rightarrow> (case b of VNone \<Rightarrow> True | _ \<Rightarrow> False)
      | VBool x \<Rightarrow>
          (case b of VBool y \<Rightarrow> x = y | VFloat y \<Rightarrow> float_eq (int_of_bool x) y
           | _ \<Rightarrow> False)
      | VFloat x \<Rightarrow>
          (case b of VBool y \<Rightarrow> float_eq x (int_of_bool y) | VFloat y \<Rightarrow> float_eq x y
           | _ \<Rightarrow> False)
      | VStr s \<Rightarrow> (case b of VStr t \<Rightarrow> s = t | _ \<Rightarrow> False)
      | VClock \<Rightarrow> (case b of VClock \<Rightarrow> True | _ \<Rightarrow> False)
      | VFunction f \<Rightarrow> (case b of VFunction g \<Rightarrow> f = g | _ \<Rightarrow> False)
      | VClass c \<Rightarrow> (case b of VClass d \<Rightarrow> c = d | _ \<Rightarrow> False)
      | VInstance i \<Rightarrow> (case b of VInstance j \<Rightarrow> i = j | _ \<Rightarrow> False))"

subsection \<open>Interpreter.is\_truthy, Interpreter.is\_equal\<close>

fun is_truthy :: "value \<Rightarrow> bool" where
  "is_truthy VNone = False"
| "is_truthy (VBool b) = b"
| "is_truthy _ = True"

definition is_equal :: "value \<Rightarrow> value \<Rightarrow> bool" where
  "is_equal a b =
     (if a = VNone \<and> b = VNone then True
      else if a = VNone then False
      else py_eq a b)"

section \<open>The syntax tree (expressions.py, statements.py)\<close>

text \<open>
  The resolver's table is keyed by the identity of an expression object. The four node
  classes that are ever used as a key carry that identity as a number, given by the parser
  when it creates the node.
\<close>

datatype expr =
    Binary expr token expr
  | Grouping expr
  | Literal "value"
  | Unary token expr
  | Variable nat token
  | Assign nat token expr
  | Logical expr token expr
  | Call expr token "expr list"
  | Get expr token
  | Set expr token expr
  | This nat token
  | Super nat token token

text \<open>
  A statement list may hold \<open>None\<close>: what \<open>Parser.declaration\<close> returns after a parse
  error.
\<close>

datatype stmt =
    Expression expr
  | Print expr
  | Var token "expr option"
  | Block "stmt option list"
  | If expr stmt "stmt option"
  | While expr stmt
  | Function fun_decl
  | Return token "expr option"
  | Class token "(nat \<times> token) option" "fun_decl list"
and fun_decl = FunDecl token "token list" "stmt option list"

fun decl_name :: "fun_decl \<Rightarrow> token" where
  "decl_name (FunDecl n ps b) = n"

fun decl_params :: "fun_decl \<Rightarrow> token list" where
  "decl_params (FunDecl n ps b) = ps"

fun decl_body :: "fun_decl \<Rightarrow> stmt option list" where
  "decl_body (FunDecl n ps b) = b"

section \<open>Exceptions and the host\<close>

text \<open>
  \<open>RuntimeError\<close> and \<open>ReturnException\<close> are the two exception classes of
  interpreter.py; \<open>PyError\<close> stands for an exception of Python itself (\<open>KeyError\<close>,
  \<open>AttributeError\<close>, \<open>IndexError\<close>), named by its class.
\<close>

datatype exn =
    RuntimeError token string
  | ReturnException "value"
  | PyError string

text \<open>
  What the program takes from the Python runtime: the arithmetic of \<open>float\<close>, its
  \<open>str\<close> and its constructor from a string, and the readings of \<open>time.time()\<close>
  (the n-th call returns \<open>time_time n\<close>).
\<close>

record host =
  float_add :: "pyfloat \<Rightarrow> pyfloat \<Rightarrow> pyfloat"
  float_sub :: "pyfloat \<Rightarrow> pyfloat \<Rightarrow> pyfloat"
  float_mul :: "pyfloat \<Rightarrow> pyfloat \<Rightarrow> pyfloat"
  float_truediv :: "pyfloat \<Rightarrow> pyfloat \<Rightarrow> pyfloat"
  float_str :: "pyfloat \<Rightarrow> string"
  float_of_str :: "string \<Rightarrow> pyfloat"
  time_time :: "nat \<Rightarrow> pyfloat"

section \<open>Objects and the interpreter's state\<close>

record environment =
  enclosing :: "nat option"
  env_values :: "string \<rightharpoonup> value"

record lox_function =
  fn_declaration :: fun_decl
  closure :: nat
  is_initializer :: bool

record lox_class =
  class_name :: string
  superclass :: "nat option"
  methods :: "string \<rightharpoonup> nat"

record lox_instance =
  klass :: nat
  instance_fields :: "string \<rightharpoonup> value"

text \<open>
  The state of an \<open>Interpreter\<close> object together with the objects it can reach: one
  store per class of object, an object's reference being its index. Objects are only
  ever added, at the end of their store. \<open>stdout\<close> holds the lines printed so far.
\<close>

record interpreter =
  globals :: nat
  environment :: nat
  locals :: "nat \<rightharpoonup> nat"
  environment_store :: "environment list"
  function_store :: "lox_function list"
  class_store :: "lox_class list"
  instance_store :: "lox_instance list"
  stdout :: "string list"
  clock_calls :: nat

type_synonym 'a result = "((exn + 'a) \<times> interpreter) option"

section \<open>Environment (environment.py)\<close>

definition new_environment :: "nat option \<Rightarrow> environment list \<Rightarrow> nat \<times> environment list" where
  "new_environment enc es = (length es, es @ [\<lparr>enclosing = enc, env_values = Map.empty\<rparr>])"

definition env_define :: "environment list \<Rightarrow> nat \<Rightarrow> string \<Rightarrow> value \<Rightarrow> environment list" where
  "env_define es e name v = es[e := (es ! e)\<lparr>env_values := (env_values (es ! e))(name \<mapsto> v)\<rparr>]"

text \<open>
  \<open>ancestor\<close>: the loop \<open>for _ in range(distance): environment = environment.enclosing\<close>.
  The variable \<open>environment\<close> may become \<open>None\<close>; reading \<open>.enclosing\<close> of \<open>None\<close>
  raises.
\<close>

fun ancestor :: "environment list \<Rightarrow> nat option \<Rightarrow> nat \<Rightarrow> exn + nat option" where
  "ancestor es e 0 = Inr e"
| "ancestor es e (Suc distance) =
     (case e of
        None \<Rightarrow> Inl (PyError ''AttributeError'')
      | Some r \<Rightarrow> ancestor es (enclosing (es ! r)) distance)"

definition get_at :: "environment list \<Rightarrow> nat \<Rightarrow> nat \<Rightarrow> string \<Rightarrow> exn + value" where
  "get_at es e distance name =
     (case ancestor es (Some e) distance of
        Inl x \<Rightarrow> Inl x
      | Inr None \<Rightarrow> Inl (PyError ''AttributeError'')
      | Inr (Some a) \<Rightarrow>
          (case env_values (es ! a) name of
             None \<Rightarrow> Inl (PyError ''KeyError'')
           | Some v \<Rightarrow> Inr v))"

definition assign_at ::
  "environment list \<Rightarrow> nat \<Rightarrow> nat \<Rightarrow> token \<Rightarrow> value \<Rightarrow> exn + environment list" where
  "assign_at es e distance name v =
     (case ancestor es (Some e) distance of
        Inl x \<Rightarrow> Inl x
      | Inr None \<Rightarrow> Inl (PyError ''AttributeError'')
      | Inr (Some a) \<Rightarrow> Inr (env_define es a (lexeme name) v))"

definition undefined_variable :: "token \<Rightarrow> exn" where
  "undefined_variable name =
     RuntimeError name (''Undefined variable '' @ [CHR 0x27] @ lexeme name @ [CHR 0x27] @ ''.'')"

text \<open>
  \<open>Environment.get\<close> and \<open>Environment.assign\<close> walk the chain by recursion. An
  environment is created after the one it encloses, so its reference is the greater; the
  test \<open>p < e\<close> records that and makes the recursion well-founded.
\<close>

function environment_get :: "environment list \<Rightarrow> nat \<Rightarrow> token \<Rightarrow> exn + value" where
  "environment_get es e name =
     (case env_values (es ! e) (lexeme name) of
        Some v \<Rightarrow> Inr v
      | None \<Rightarrow>
          (case enclosing (es ! e) of
             Some p \<Rightarrow>
               (if p < e then environment_get es p name else Inl (PyError ''RecursionError''))
           | None \<Rightarrow> Inl (undefined_variable name)))"
  by pat_completeness auto
termination
  by (relation "measure (\<lambda>(es, e, name). e)") auto

function environment_assign ::
  "environment list \<Rightarrow> nat \<Rightarrow> token \<Rightarrow> value \<Rightarrow> exn + environment list" where
  "environment_assign es e name v =
     (if lexeme name \<in> dom (env_values (es ! e)) then Inr (env_define es e (lexeme name) v)
      else
        (case enclosing (es ! e) of
           Some p \<Rightarrow>
             (if p < e then environment_assign es p name v
              else Inl (PyError ''RecursionError''))
         | None \<Rightarrow> Inl (undefined_variable name)))"
  by pat_completeness auto
termination
  by (relation "measure (\<lambda>(es, e, name, v). e)") auto

declare environment_get.simps [simp del]
declare environment_assign.simps [simp del]

section \<open>Runtime objects (interpreter.py)\<close>

text \<open>
  \<open>LoxClass.find_method\<close>. A class object is created after its superclass, so the
  superclass has the smaller reference.
\<close>

function find_method :: "lox_class list \<Rightarrow> nat \<Rightarrow> string \<Rightarrow> nat option" where
  "find_method cs c name =
     (case methods (cs ! c) name of
        Some f \<Rightarrow> Some f
      | None \<Rightarrow>
          (case superclass (cs ! c) of
             Some s \<Rightarrow> (if s < c then find_method cs s name else None)
           | None \<Rightarrow> None))"
  by pat_completeness auto
termination
  by (relation "measure (\<lambda>(cs, c, name). c)") auto

declare find_method.simps [simp del]

definition function_arity :: "interpreter \<Rightarrow> nat \<Rightarrow> nat" where
  "function_arity st f = length (decl_params (fn_declaration (function_store st ! f)))"

definition class_arity :: "interpreter \<Rightarrow> nat \<Rightarrow> nat" where
  "class_arity st c =
     (case find_method (class_store st) c ''init'' of
        None \<Rightarrow> 0
      | Some initializer \<Rightarrow> function_arity st initializer)"

text \<open>\<open>isinstance(callee, LoxCallable)\<close> and \<open>callee.arity()\<close>.\<close>

fun is_callable :: "value \<Rightarrow> bool" where
  "is_callable VClock = True"
| "is_callable (VFunction f) = True"
| "is_callable (VClass c) = True"
| "is_callable _ = False"

fun arity :: "interpreter \<Rightarrow> value \<Rightarrow> nat" where
  "arity st (VFunction f) = function_arity st f"
| "arity st (VClass c) = class_arity st c"
| "arity st _ = 0"

text \<open>\<open>LoxFunction.bind\<close>: a new environment holding \<open>this\<close>, and a new function object.\<close>

definition function_bind :: "nat \<Rightarrow> value \<Rightarrow> interpreter \<Rightarrow> nat \<times> interpreter" where
  "function_bind f inst st =
     (let fn = function_store st ! f;
          (env, es) = new_environment (Some (closure fn)) (environment_store st)
      in (length (function_store st),
          st\<lparr>environment_store := env_define es env ''this'' inst,
             function_store := function_store st @
               [\<lparr>fn_declaration = fn_declaration fn, closure = env,
                 is_initializer = is_initializer fn\<rparr>]\<rparr>))"

definition undefined_property :: "token \<Rightarrow> exn" where
  "undefined_property name =
     RuntimeError name (''Undefined property '' @ [CHR 0x27] @ lexeme name @ [CHR 0x27] @ ''.'')"

definition instance_get :: "nat \<Rightarrow> token \<Rightarrow> interpreter \<Rightarrow> (exn + value) \<times> interpreter" where
  "instance_get i name st =
     (case instance_fields (instance_store st ! i) (lexeme name) of
        Some v \<Rightarrow> (Inr v, st)
      | None \<Rightarrow>
          (case find_method (class_store st) (klass (instance_store st ! i)) (lexeme name) of
             Some m \<Rightarrow> (case function_bind m (VInstance i) st of (f, st') \<Rightarrow> (Inr (VFunction f), st'))
           | None \<Rightarrow> (Inl (undefined_property name), st)))"

definition instance_set :: "nat \<Rightarrow> token \<Rightarrow> value \<Rightarrow> interpreter \<Rightarrow> interpreter" where
  "instance_set i name v st =
     st\<lparr>instance_store := (instance_store st)
       [i := (instance_store st ! i)
          \<lparr>instance_fields := (instance_fields (instance_store st ! i))(lexeme name \<mapsto> v)\<rparr>]\<rparr>"

section \<open>Interpreter: values and operators\<close>

definition endswith :: "string \<Rightarrow> string \<Rightarrow> bool" where
  "endswith text s = (length s \<le> length text \<and> drop (length text - length s) text = s)"

function str_nat :: "nat \<Rightarrow> string" where
  "str_nat n =
     (if n < 10 then [char_of (48 + n)] else str_nat (n div 10) @ [char_of (48 + n mod 10)])"
  by pat_completeness auto
termination
  by (relation "measure (\<lambda>n. n)") auto

declare str_nat.simps [simp del]

definition stringify :: "host \<Rightarrow> interpreter \<Rightarrow> value \<Rightarrow> string" where
  "stringify H st obj =
     (case obj of
        VNone \<Rightarrow> ''nil''
      | VBool b \<Rightarrow> (if b then ''true'' else ''false'')
      | VFloat x \<Rightarrow>
          (let text = float_str H x
           in if endswith text ''.0'' then take (length text - 2) text else text)
      | VStr s \<Rightarrow> s
      | VClock \<Rightarrow> ''<native fn>''
      | VFunction f \<Rightarrow>
          ''<fn '' @ lexeme (decl_name (fn_declaration (function_store st ! f))) @ ''>''
      | VClass c \<Rightarrow> ''<class '' @ class_name (class_store st ! c) @ ''>''
      | VInstance i \<Rightarrow>
          ''<'' @ class_name (class_store st ! klass (instance_store st ! i)) @ '' instance>'')"

fun is_float :: "value \<Rightarrow> bool" where
  "is_float (VFloat x) = True"
| "is_float _ = False"

fun is_str :: "value \<Rightarrow> bool" where
  "is_str (VStr s) = True"
| "is_str _ = False"

text \<open>
  \<open>check_number_operand(s)\<close> raise unless every operand is a \<open>float\<close>; on success the
  model hands back the floats, which is what \<open>float(left)\<close> and \<open>float(right)\<close> are then.
\<close>

definition check_number_operand :: "token \<Rightarrow> value \<Rightarrow> exn + pyfloat" where
  "check_number_operand operator operand =
     (case operand of
        VFloat x \<Rightarrow> Inr x
      | _ \<Rightarrow> Inl (RuntimeError operator ''Operand must be a number.''))"

definition check_number_operands :: "token \<Rightarrow> value \<Rightarrow> value \<Rightarrow> exn + pyfloat \<times> pyfloat" where
  "check_number_operands operator left right =
     (case left of
        VFloat x \<Rightarrow>
          (case right of
             VFloat y \<Rightarrow> Inr (x, y)
           | _ \<Rightarrow> Inl (RuntimeError operator ''Operands must be numbers.''))
      | _ \<Rightarrow> Inl (RuntimeError operator ''Operands must be numbers.''))"

text \<open>\<open>visit_unary_expr\<close> after its operand is evaluated.\<close>

definition unary_op :: "token \<Rightarrow> value \<Rightarrow> exn + value" where
  "unary_op operator right =
     (if ttype operator = MINUS then
        (case check_number_operand operator right of
           Inl x \<Rightarrow> Inl x
         | Inr r \<Rightarrow> Inr (VFloat (float_neg r)))
      else if ttype operator = BANG then Inr (VBool (\<not> is_truthy right))
      else Inr VNone)"

text \<open>\<open>visit_binary_expr\<close> after both operands are evaluated.\<close>

definition number_op ::
  "token \<Rightarrow> value \<Rightarrow> value \<Rightarrow> (pyfloat \<Rightarrow> pyfloat \<Rightarrow> value) \<Rightarrow> exn + value" where
  "number_op operator left right f =
     (case check_number_operands operator left right of
        Inl x \<Rightarrow> Inl x
      | Inr (l, r) \<Rightarrow> Inr (f l r))"

definition binary_op :: "host \<Rightarrow> interpreter \<Rightarrow> token \<Rightarrow> value \<Rightarrow> value \<Rightarrow> exn + value" where
  "binary_op H st operator left right =
     (let operator_type = ttype operator in
      if operator_type = MINUS then
        number_op operator left right (\<lambda>l r. VFloat (float_sub H l r))
      else if operator_type = PLUS then
        (case (left, right) of
           (VFloat l, VFloat r) \<Rightarrow> Inr (VFloat (float_add H l r))
         | _ \<Rightarrow>
           if is_str left \<or> is_str right then
             Inr (VStr (stringify H st left @ stringify H st right))
           else
             Inl (RuntimeError operator
               ''Operands must be two numbers or at least one string.''))
      else if operator_type = SLASH then
        (case check_number_operands operator left right of
           Inl x \<Rightarrow> Inl x
         | Inr (l, r) \<Rightarrow>
             if float_eq r (Finite 0) then Inl (RuntimeError operator ''Division by zero.'')
             else Inr (VFloat (float_truediv H l r)))
      else if operator_type = STAR then
        number_op operator left right (\<lambda>l r. VFloat (float_mul H l r))
      else if operator_type = GREATER then
        number_op operator left right (\<lambda>l r. VBool (float_gt l r))
      else if operator_type = GREATER_EQUAL then
        number_op operator left right (\<lambda>l r. VBool (float_ge l r))
      else if operator_type = LESS then
        number_op operator left right (\<lambda>l r. VBool (float_lt l r))
      else if operator_type = LESS_EQUAL then
        number_op operator left right (\<lambda>l r. VBool (float_le l r))
      else if operator_type = BANG_EQUAL then Inr (VBool (\<not> is_equal left right))
      else if operator_type = EQUAL_EQUAL then Inr (VBool (is_equal left right))
      else Inr VNone)"

definition lookup_variable :: "interpreter \<Rightarrow> token \<Rightarrow> nat \<Rightarrow> exn + value" where
  "lookup_variable st name expr_id =
     (case locals st expr_id of
        Some distance \<Rightarrow> get_at (environment_store st) (environment st) distance (lexeme name)
      | None \<Rightarrow> environment_get (environment_store st) (globals st) name)"

text \<open>The second half of \<open>visit_assign_expr\<close>: the store into the environment.\<close>

definition assign_variable ::
  "interpreter \<Rightarrow> token \<Rightarrow> nat \<Rightarrow> value \<Rightarrow> (exn + value) \<times> interpreter" where
  "assign_variable st name expr_id v =
     (case (case locals st expr_id of
              Some distance \<Rightarrow> assign_at (environment_store st) (environment st) distance name v
            | None \<Rightarrow> environment_assign (environment_store st) (globals st) name v) of
        Inl x \<Rightarrow> (Inl x, st)
      | Inr es \<Rightarrow> (Inr v, st\<lparr>environment_store := es\<rparr>))"

text \<open>
  \<open>visit_super_expr\<close>. \<open>distance - 1\<close> is \<open>-1\<close> in Python when the distance is 0, and
  \<open>ancestor(-1)\<close> runs its loop zero times, as \<open>ancestor(0)\<close> does.
\<close>

definition super_lookup :: "interpreter \<Rightarrow> nat \<Rightarrow> token \<Rightarrow> (exn + value) \<times> interpreter" where
  "super_lookup st expr_id method =
     (case locals st expr_id of
        None \<Rightarrow> (Inl (PyError ''KeyError''), st)
      | Some distance \<Rightarrow>
          (case get_at (environment_store st) (environment st) distance ''super'' of
             Inl x \<Rightarrow> (Inl x, st)
           | Inr sc \<Rightarrow>
               (case get_at (environment_store st) (environment st) (distance - 1) ''this'' of
                  Inl x \<Rightarrow> (Inl x, st)
                | Inr obj \<Rightarrow>
                    (case sc of
                       VClass c \<Rightarrow>
                         (case find_method (class_store st) c (lexeme method) of
                            None \<Rightarrow> (Inl (undefined_property method), st)
                          | Some m \<Rightarrow>
                              (case function_bind m obj st of
                                 (f, st') \<Rightarrow> (Inr (VFunction f), st')))
                     | _ \<Rightarrow> (Inl (PyError ''AttributeError''), st)))))"

text \<open>The loop of \<open>LoxFunction.call\<close> that defines the parameters.\<close>

fun define_params ::
  "environment list \<Rightarrow> nat \<Rightarrow> token list \<Rightarrow> value list \<Rightarrow> exn option \<times> environment list" where
  "define_params es env [] arguments = (None, es)"
| "define_params es env (param # params) [] = (Some (PyError ''IndexError''), es)"
| "define_params es env (param # params) (a # arguments) =
     define_params (env_define es env (lexeme param) a) env params arguments"

text \<open>The loop of \<open>visit_class_stmt\<close> that builds the method table.\<close>

fun make_methods ::
  "fun_decl list \<Rightarrow> nat \<Rightarrow> (string \<rightharpoonup> nat) \<Rightarrow> lox_function list
     \<Rightarrow> (string \<rightharpoonup> nat) \<times> lox_function list" where
  "make_methods [] env ms fs = (ms, fs)"
| "make_methods (m # rest) env ms fs =
     make_methods rest env (ms(lexeme (decl_name m) \<mapsto> length fs))
       (fs @ [\<lparr>fn_declaration = m, closure = env,
                is_initializer = (lexeme (decl_name m) = ''init'')\<rparr>])"

text \<open>\<open>visit_class_stmt\<close> after the superclass expression is evaluated and checked.\<close>

definition define_class ::
  "token \<Rightarrow> nat option \<Rightarrow> fun_decl list \<Rightarrow> interpreter \<Rightarrow> (exn + unit) \<times> interpreter" where
  "define_class name super_ref decls st =
     (let st1 = st\<lparr>environment_store :=
                   env_define (environment_store st) (environment st) (lexeme name) VNone\<rparr>;
          st2 = (case super_ref of
                   None \<Rightarrow> st1
                 | Some c \<Rightarrow>
                     (case new_environment (Some (environment st1)) (environment_store st1) of
                        (e, es) \<Rightarrow>
                          st1\<lparr>environment := e,
                              environment_store := env_define es e ''super'' (VClass c)\<rparr>));
          (ms, fs) = make_methods decls (environment st2) Map.empty (function_store st2);
          k = length (class_store st2);
          st3 = st2\<lparr>function_store := fs,
                    class_store := class_store st2 @
                      [\<lparr>class_name = lexeme name, superclass = super_ref, methods = ms\<rparr>]\<rparr>;
          st4 = (case super_ref of
                   None \<Rightarrow> st3
                 | Some c \<Rightarrow>
                     (case enclosing (environment_store st3 ! environment st3) of
                        Some p \<Rightarrow> st3\<lparr>environment := p\<rparr>
                      | None \<Rightarrow> st3))
      in case environment_assign (environment_store st4) (environment st4) name (VClass k) of
           Inl x \<Rightarrow> (Inl x, st4)
         | Inr es \<Rightarrow> (Inr (), st4\<lparr>environment_store := es\<rparr>))"

section \<open>Interpreter: evaluation and execution\<close>

text \<open>
  The visitor methods of \<open>Interpreter\<close> and the \<open>call\<close> methods of the callables call
  each other through \<open>self.evaluate\<close> and \<open>self.execute\<close>, and a Lox program need not
  terminate. A result is \<open>None\<close> when the run does not end within the depth of calls
  allowed; otherwise it is the value or the exception raised, and the state reached.
  Python's own recursion limit is not modelled.

  Each method is a definition of its own. It reaches \<open>evaluate\<close> and \<open>execute\<close> through
  its first argument after the host, the visitor \<open>V\<close>, as the Python method does
  through \<open>self\<close>. \<open>interpreter_at\<close> below ties the knot.
\<close>

record visitor =
  v_evaluate :: "expr \<Rightarrow> interpreter \<Rightarrow> value result"
  v_execute :: "stmt \<Rightarrow> interpreter \<Rightarrow> unit result"

subsection \<open>Blocks and calls\<close>

text \<open>The loop \<open>for statement in statements: if statement is not None: self.execute(statement)\<close>.\<close>

fun execute_statements :: "visitor \<Rightarrow> stmt option list \<Rightarrow> interpreter \<Rightarrow> unit result" where
  "execute_statements V [] st = Some (Inr (), st)"
| "execute_statements V (statement # statements) st =
     (case statement of
        None \<Rightarrow> execute_statements V statements st
      | Some s \<Rightarrow>
          (case v_execute V s st of
             None \<Rightarrow> None
           | Some (Inl x, st1) \<Rightarrow> Some (Inl x, st1)
           | Some (Inr u, st1) \<Rightarrow> execute_statements V statements st1))"

text \<open>\<open>execute_block\<close>: the \<open>finally\<close> clause restores the environment on every exit.\<close>

definition execute_block ::
  "visitor \<Rightarrow> stmt option list \<Rightarrow> nat \<Rightarrow> interpreter \<Rightarrow> unit result" where
  "execute_block V statements env st =
     (case execute_statements V statements (st\<lparr>environment := env\<rparr>) of
        None \<Rightarrow> None
      | Some (r, st1) \<Rightarrow> Some (r, st1\<lparr>environment := environment st\<rparr>))"

text \<open>\<open>LoxFunction.call\<close>.\<close>

definition function_call :: "visitor \<Rightarrow> nat \<Rightarrow> value list \<Rightarrow> interpreter \<Rightarrow> value result" where
  "function_call V f arguments st =
     (case new_environment (Some (closure (function_store st ! f))) (environment_store st) of
        (env, es) \<Rightarrow>
          (case define_params es env
                  (decl_params (fn_declaration (function_store st ! f))) arguments of
             (Some x, es1) \<Rightarrow> Some (Inl x, st\<lparr>environment_store := es1\<rparr>)
           | (None, es1) \<Rightarrow>
               (case execute_block V (decl_body (fn_declaration (function_store st ! f))) env
                       (st\<lparr>environment_store := es1\<rparr>) of
                  None \<Rightarrow> None
                | Some (Inl (ReturnException v), st1) \<Rightarrow>
                    (if is_initializer (function_store st ! f) then
                       Some (get_at (environment_store st1)
                               (closure (function_store st ! f)) 0 ''this'', st1)
                     else Some (Inr v, st1))
                | Some (Inl x, st1) \<Rightarrow> Some (Inl x, st1)
                | Some (Inr u, st1) \<Rightarrow>
                    (if is_initializer (function_store st ! f) then
                       Some (get_at (environment_store st1)
                               (closure (function_store st ! f)) 0 ''this'', st1)
                     else Some (Inr VNone, st1)))))"

text \<open>\<open>LoxClass.call\<close>.\<close>

definition class_call :: "visitor \<Rightarrow> nat \<Rightarrow> value list \<Rightarrow> interpreter \<Rightarrow> value result" where
  "class_call V c arguments st =
     (let inst = length (instance_store st);
          st1 = st\<lparr>instance_store := instance_store st @
                  [\<lparr>klass = c, instance_fields = Map.empty\<rparr>]\<rparr>
      in case find_method (class_store st1) c ''init'' of
           None \<Rightarrow> Some (Inr (VInstance inst), st1)
         | Some initializer \<Rightarrow>
             (case function_bind initializer (VInstance inst) st1 of
                (f, st2) \<Rightarrow>
                  (case function_call V f arguments st2 of
                     None \<Rightarrow> None
                   | Some (Inl x, st3) \<Rightarrow> Some (Inl x, st3)
                   | Some (Inr v, st3) \<Rightarrow> Some (Inr (VInstance inst), st3))))"

text \<open>\<open>callee.call(self, arguments)\<close>, dispatched on the class of the callee.\<close>

definition call ::
  "host \<Rightarrow> visitor \<Rightarrow> value \<Rightarrow> value list \<Rightarrow> interpreter \<Rightarrow> value result" where
  "call H V callee arguments st =
     (case callee of
        VClock \<Rightarrow>
          Some (Inr (VFloat (time_time H (clock_calls st))),
                st\<lparr>clock_calls := Suc (clock_calls st)\<rparr>)
      | VFunction f \<Rightarrow> function_call V f arguments st
      | VClass c \<Rightarrow> class_call V c arguments st
      | _ \<Rightarrow> Some (Inl (PyError ''AttributeError''), st))"

subsection \<open>Expression visitors\<close>

fun evaluate_arguments :: "visitor \<Rightarrow> expr list \<Rightarrow> interpreter \<Rightarrow> value list result" where
  "evaluate_arguments V [] st = Some (Inr [], st)"
| "evaluate_arguments V (argument # args) st =
     (case v_evaluate V argument st of
        None \<Rightarrow> None
      | Some (Inl x, st1) \<Rightarrow> Some (Inl x, st1)
      | Some (Inr v, st1) \<Rightarrow>
          (case evaluate_arguments V args st1 of
             None \<Rightarrow> None
           | Some (Inl x, st2) \<Rightarrow> Some (Inl x, st2)
           | Some (Inr vs, st2) \<Rightarrow> Some (Inr (v # vs), st2)))"

definition visit_unary_expr :: "visitor \<Rightarrow> token \<Rightarrow> expr \<Rightarrow> interpreter \<Rightarrow> value result" where
  "visit_unary_expr V operator e st =
     (case v_evaluate V e st of
        None \<Rightarrow> None
      | Some (Inl x, st1) \<Rightarrow> Some (Inl x, st1)
      | Some (Inr right, st1) \<Rightarrow> Some (unary_op operator right, st1))"

definition visit_binary_expr ::
  "host \<Rightarrow> visitor \<Rightarrow> expr \<Rightarrow> token \<Rightarrow> expr \<Rightarrow> interpreter \<Rightarrow> value result" where
  "visit_binary_expr H V l operator r st =
     (case v_evaluate V l st of
        None \<Rightarrow> None
      | Some (Inl x, st1) \<Rightarrow> Some (Inl x, st1)
      | Some (Inr left, st1) \<Rightarrow>
          (case v_evaluate V r st1 of
             None \<Rightarrow> None
           | Some (Inl x, st2) \<Rightarrow> Some (Inl x, st2)
           | Some (Inr right, st2) \<Rightarrow> Some (binary_op H st2 operator left right, st2)))"

definition visit_assign_expr ::
  "visitor \<Rightarrow> nat \<Rightarrow> token \<Rightarrow> expr \<Rightarrow> interpreter \<Rightarrow> value result" where
  "visit_assign_expr V i name e st =
     (case v_evaluate V e st of
        None \<Rightarrow> None
      | Some (Inl x, st1) \<Rightarrow> Some (Inl x, st1)
      | Some (Inr v, st1) \<Rightarrow> Some (assign_variable st1 name i v))"

definition visit_logical_expr ::
  "visitor \<Rightarrow> expr \<Rightarrow> token \<Rightarrow> expr \<Rightarrow> interpreter \<Rightarrow> value result" where
  "visit_logical_expr V l operator r st =
     (case v_evaluate V l st of
        None \<Rightarrow> None
      | Some (Inl x, st1) \<Rightarrow> Some (Inl x, st1)
      | Some (Inr left, st1) \<Rightarrow>
          (if ttype operator = OR then
             (if is_truthy left then Some (Inr left, st1) else v_evaluate V r st1)
           else
             (if \<not> is_truthy left then Some (Inr left, st1) else v_evaluate V r st1)))"

definition visit_call_expr ::
  "host \<Rightarrow> visitor \<Rightarrow> expr \<Rightarrow> token \<Rightarrow> expr list \<Rightarrow> interpreter \<Rightarrow> value result" where
  "visit_call_expr H V callee_expr paren args st =
     (case v_evaluate V callee_expr st of
        None \<Rightarrow> None
      | Some (Inl x, st1) \<Rightarrow> Some (Inl x, st1)
      | Some (Inr callee, st1) \<Rightarrow>
          (case evaluate_arguments V args st1 of
             None \<Rightarrow> None
           | Some (Inl x, st2) \<Rightarrow> Some (Inl x, st2)
           | Some (Inr arguments, st2) \<Rightarrow>
               (if \<not> is_callable callee then
                  Some (Inl (RuntimeError paren ''Can only call functions and classes.''), st2)
                else if length arguments \<noteq> arity st2 callee then
                  Some (Inl (RuntimeError paren
                    (''Expected '' @ str_nat (arity st2 callee) @ '' arguments but got ''
                      @ str_nat (length arguments) @ ''.'')), st2)
                else call H V callee arguments st2)))"

definition visit_get_expr :: "visitor \<Rightarrow> expr \<Rightarrow> token \<Rightarrow> interpreter \<Rightarrow> value result" where
  "visit_get_expr V object_expr name st =
     (case v_evaluate V object_expr st of
        None \<Rightarrow> None
      | Some (Inl x, st1) \<Rightarrow> Some (Inl x, st1)
      | Some (Inr obj, st1) \<Rightarrow>
          (case obj of
             VInstance i \<Rightarrow> Some (instance_get i name st1)
           | _ \<Rightarrow> Some (Inl (RuntimeError name ''Only instances have properties.''), st1)))"

definition visit_set_expr ::
  "visitor \<Rightarrow> expr \<Rightarrow> token \<Rightarrow> expr \<Rightarrow> interpreter \<Rightarrow> value result" where
  "visit_set_expr V object_expr name value_expr st =
     (case v_evaluate V object_expr st of
        None \<Rightarrow> None
      | Some (Inl x, st1) \<Rightarrow> Some (Inl x, st1)
      | Some (Inr obj, st1) \<Rightarrow>
          (case obj of
             VInstance i \<Rightarrow>
               (case v_evaluate V value_expr st1 of
                  None \<Rightarrow> None
                | Some (Inl x, st2) \<Rightarrow> Some (Inl x, st2)
                | Some (Inr v, st2) \<Rightarrow> Some (Inr v, instance_set i name v st2))
           | _ \<Rightarrow> Some (Inl (RuntimeError name ''Only instances have fields.''), st1)))"

text \<open>\<open>expr.accept(self)\<close>: the dispatch on the class of the node.\<close>

definition accept_expr :: "host \<Rightarrow> visitor \<Rightarrow> expr \<Rightarrow> interpreter \<Rightarrow> value result" where
  "accept_expr H V e st =
     (case e of
        Binary l operator r \<Rightarrow> visit_binary_expr H V l operator r st
      | Grouping inner \<Rightarrow> v_evaluate V inner st
      | Literal v \<Rightarrow> Some (Inr v, st)
      | Unary operator r \<Rightarrow> visit_unary_expr V operator r st
      | Variable i name \<Rightarrow> Some (lookup_variable st name i, st)
      | Assign i name v \<Rightarrow> visit_assign_expr V i name v st
      | Logical l operator r \<Rightarrow> visit_logical_expr V l operator r st
      | Call callee paren args \<Rightarrow> visit_call_expr H V callee paren args st
      | Get obj name \<Rightarrow> visit_get_expr V obj name st
      | Set obj name v \<Rightarrow> visit_set_expr V obj name v st
      | This i keyword \<Rightarrow> Some (lookup_variable st keyword i, st)
      | Super i keyword method \<Rightarrow> Some (super_lookup st i method))"

subsection \<open>Statement visitors\<close>

definition visit_expression_stmt :: "visitor \<Rightarrow> expr \<Rightarrow> interpreter \<Rightarrow> unit result" where
  "visit_expression_stmt V e st =
     (case v_evaluate V e st of
        None \<Rightarrow> None
      | Some (Inl x, st1) \<Rightarrow> Some (Inl x, st1)
      | Some (Inr v, st1) \<Rightarrow> Some (Inr (), st1))"

definition visit_print_stmt :: "host \<Rightarrow> visitor \<Rightarrow> expr \<Rightarrow> interpreter \<Rightarrow> unit result" where
  "visit_print_stmt H V e st =
     (case v_evaluate V e st of
        None \<Rightarrow> None
      | Some (Inl x, st1) \<Rightarrow> Some (Inl x, st1)
      | Some (Inr v, st1) \<Rightarrow>
          Some (Inr (), st1\<lparr>stdout := stdout st1 @ [stringify H st1 v]\<rparr>))"

definition visit_var_stmt ::
  "visitor \<Rightarrow> token \<Rightarrow> expr option \<Rightarrow> interpreter \<Rightarrow> unit result" where
  "visit_var_stmt V name initializer st =
     (case initializer of
        None \<Rightarrow>
          Some (Inr (), st\<lparr>environment_store :=
            env_define (environment_store st) (environment st) (lexeme name) VNone\<rparr>)
      | Some e \<Rightarrow>
          (case v_evaluate V e st of
             None \<Rightarrow> None
           | Some (Inl x, st1) \<Rightarrow> Some (Inl x, st1)
           | Some (Inr v, st1) \<Rightarrow>
               Some (Inr (), st1\<lparr>environment_store :=
                 env_define (environment_store st1) (environment st1) (lexeme name) v\<rparr>)))"

definition visit_block_stmt :: "visitor \<Rightarrow> stmt option list \<Rightarrow> interpreter \<Rightarrow> unit result" where
  "visit_block_stmt V statements st =
     (case new_environment (Some (environment st)) (environment_store st) of
        (env, es) \<Rightarrow> execute_block V statements env (st\<lparr>environment_store := es\<rparr>))"

definition visit_if_stmt ::
  "visitor \<Rightarrow> expr \<Rightarrow> stmt \<Rightarrow> stmt option \<Rightarrow> interpreter \<Rightarrow> unit result" where
  "visit_if_stmt V condition then_branch else_branch st =
     (case v_evaluate V condition st of
        None \<Rightarrow> None
      | Some (Inl x, st1) \<Rightarrow> Some (Inl x, st1)
      | Some (Inr v, st1) \<Rightarrow>
          (if is_truthy v then v_execute V then_branch st1
           else
             (case else_branch of
                None \<Rightarrow> Some (Inr (), st1)
              | Some s \<Rightarrow> v_execute V s st1)))"

text \<open>
  \<open>visit_while_stmt\<close>: one turn of the loop; the turns that follow are the same
  statement executed again.
\<close>

definition visit_while_stmt :: "visitor \<Rightarrow> expr \<Rightarrow> stmt \<Rightarrow> interpreter \<Rightarrow> unit result" where
  "visit_while_stmt V condition body st =
     (case v_evaluate V condition st of
        None \<Rightarrow> None
      | Some (Inl x, st1) \<Rightarrow> Some (Inl x, st1)
      | Some (Inr v, st1) \<Rightarrow>
          (if is_truthy v then
             (case v_execute V body st1 of
                None \<Rightarrow> None
              | Some (Inl x, st2) \<Rightarrow> Some (Inl x, st2)
              | Some (Inr u, st2) \<Rightarrow> v_execute V (While condition body) st2)
           else Some (Inr (), st1)))"

definition visit_function_stmt :: "fun_decl \<Rightarrow> interpreter \<Rightarrow> unit result" where
  "visit_function_stmt decl st =
     Some (Inr (),
       st\<lparr>function_store := function_store st @
            [\<lparr>fn_declaration = decl, closure = environment st, is_initializer = False\<rparr>],
          environment_store :=
            env_define (environment_store st) (environment st) (lexeme (decl_name decl))
              (VFunction (length (function_store st)))\<rparr>)"

definition visit_return_stmt ::
  "visitor \<Rightarrow> token \<Rightarrow> expr option \<Rightarrow> interpreter \<Rightarrow> unit result" where
  "visit_return_stmt V keyword val st =
     (case val of
        None \<Rightarrow> Some (Inl (ReturnException VNone), st)
      | Some e \<Rightarrow>
          (case v_evaluate V e st of
             None \<Rightarrow> None
           | Some (Inl x, st1) \<Rightarrow> Some (Inl x, st1)
           | Some (Inr v, st1) \<Rightarrow> Some (Inl (ReturnException v), st1)))"

definition visit_class_stmt ::
  "visitor \<Rightarrow> token \<Rightarrow> (nat \<times> token) option \<Rightarrow> fun_decl list \<Rightarrow> interpreter \<Rightarrow> unit result" where
  "visit_class_stmt V name super_expr decls st =
     (case super_expr of
        None \<Rightarrow> Some (define_class name None decls st)
      | Some (i, super_name) \<Rightarrow>
          (case v_evaluate V (Variable i super_name) st of
             None \<Rightarrow> None
           | Some (Inl x, st1) \<Rightarrow> Some (Inl x, st1)
           | Some (Inr v, st1) \<Rightarrow>
               (case v of
                  VClass c \<Rightarrow> Some (define_class name (Some c) decls st1)
                | _ \<Rightarrow>
                    Some (Inl (RuntimeError super_name ''Superclass must be a class.''), st1))))"

text \<open>\<open>stmt.accept(self)\<close>.\<close>

definition accept_stmt :: "host \<Rightarrow> visitor \<Rightarrow> stmt \<Rightarrow> interpreter \<Rightarrow> unit result" where
  "accept_stmt H V s st =
     (case s of
        Expression e \<Rightarrow> visit_expression_stmt V e st
      | Print e \<Rightarrow> visit_print_stmt H V e st
      | Var name initializer \<Rightarrow> visit_var_stmt V name initializer st
      | Block statements \<Rightarrow> visit_block_stmt V statements st
      | If condition then_branch else_branch \<Rightarrow>
          visit_if_stmt V condition then_branch else_branch st
      | While condition body \<Rightarrow> visit_while_stmt V condition body st
      | Function decl \<Rightarrow> visit_function_stmt decl st
      | Return keyword val \<Rightarrow> visit_return_stmt V keyword val st
      | Class name super_expr decls \<Rightarrow> visit_class_stmt V name super_expr decls st)"

subsection \<open>The interpreter\<close>

text \<open>
  \<open>interpreter_at H n\<close> is the interpreter whose \<open>evaluate\<close> and \<open>execute\<close> may nest
  \<open>n\<close> deep: with nothing left they do not return; with \<open>Suc n\<close> they dispatch to the
  visitor methods, which call back with \<open>n\<close>.
\<close>

primrec interpreter_at :: "host \<Rightarrow> nat \<Rightarrow> visitor" where
  "interpreter_at H 0 = \<lparr>v_evaluate = (\<lambda>e st. None), v_execute = (\<lambda>s st. None)\<rparr>"
| "interpreter_at H (Suc n) =
     \<lparr>v_evaluate = accept_expr H (interpreter_at H n),
      v_execute = accept_stmt H (interpreter_at H n)\<rparr>"

definition evaluate :: "host \<Rightarrow> nat \<Rightarrow> expr \<Rightarrow> interpreter \<Rightarrow> value result" where
  "evaluate H n = v_evaluate (interpreter_at H n)"

definition execute :: "host \<Rightarrow> nat \<Rightarrow> stmt \<Rightarrow> interpreter \<Rightarrow> unit result" where
  "execute H n = v_execute (interpreter_at H n)"

text \<open>
  \<open>Interpreter.interpret\<close>: the statements run in order; a \<open>RuntimeError\<close> is caught
  and reported on standard output. Any other exception leaves \<open>interpret\<close> uncaught and
  is returned.
\<close>

definition interpret_stmts ::
  "host \<Rightarrow> nat \<Rightarrow> stmt option list \<Rightarrow> interpreter \<Rightarrow> (exn option \<times> interpreter) option" where
  "interpret_stmts H n statements st =
     (case execute_statements (interpreter_at H n) statements st of
        None \<Rightarrow> None
      | Some (Inl (RuntimeError tok message), st1) \<Rightarrow>
          Some (None, st1\<lparr>stdout := stdout st1 @
            [''Runtime error at line '' @ str_nat (line tok) @ '': '' @ message]\<rparr>)
      | Some (Inl x, st1) \<Rightarrow> Some (Some x, st1)
      | Some (Inr u, st1) \<Rightarrow> Some (None, st1))"

text \<open>\<open>Interpreter.__init__\<close>: the global environment, holding \<open>clock\<close>.\<close>

definition new_interpreter :: interpreter where
  "new_interpreter =
     \<lparr>globals = 0, environment = 0, locals = Map.empty,
      environment_store = [\<lparr>enclosing = None, env_values = [''clock'' \<mapsto> VClock]\<rparr>],
      function_store = [], class_store = [], instance_store = [],
      stdout = [], clock_calls = 0\<rparr>"

section \<open>Specification-side notions\<close>

text \<open>
  The environment \<open>d\<close> enclosing-hops outward from \<open>e\<close>, if the chain is that long:
  \<open>d\<close> does not exceed the length of the chain exactly when \<open>hops es e d\<close> is an
  environment.
\<close>

definition outward :: "environment list \<Rightarrow> nat option \<Rightarrow> nat option" where
  "outward es e = (case e of None \<Rightarrow> None | Some r \<Rightarrow> enclosing (es ! r))"

definition hops :: "environment list \<Rightarrow> nat \<Rightarrow> nat \<Rightarrow> nat option" where
  "hops es e d = (outward es ^^ d) (Some e)"

text \<open>
  The equality rule in the words of the specification: the same variant, and within it
  equal contents for booleans and strings, numeric equality for numbers, identity for
  functions, classes and instances.
\<close>

definition spec_equal :: "value \<Rightarrow> value \<Rightarrow> bool" where
  "spec_equal a b =
     (case a of
        VNone \<Rightarrow> (case b of VNone \<Rightarrow> True | _ \<Rightarrow> False)
      | VBool x \<Rightarrow> (case b of VBool y \<Rightarrow> x = y | _ \<Rightarrow> False)
      | VFloat x \<Rightarrow> (case b of VFloat y \<Rightarrow> float_eq x y | _ \<Rightarrow> False)
      | VStr s \<Rightarrow> (case b of VStr t \<Rightarrow> s = t | _ \<Rightarrow> False)
      | VClock \<Rightarrow> (case b of VClock \<Rightarrow> True | _ \<Rightarrow> False)
      | VFunction f \<Rightarrow> (case b of VFunction g \<Rightarrow> f = g | _ \<Rightarrow> False)
      | VClass c \<Rightarrow> (case b of VClass d \<Rightarrow> c = d | _ \<Rightarrow> False)
      | VInstance i \<Rightarrow> (case b of VInstance j \<Rightarrow> i = j | _ \<Rightarrow> False))"

fun is_bool :: "value \<Rightarrow> bool" where
  "is_bool (VBool b) = True"
| "is_bool _ = False"

section \<open>A host for the examples\<close>

text \<open>
  The examples below run on a host whose arithmetic is exact on finite values and whose
  \<open>str\<close> prints whole numbers the way Python does. It agrees with IEEE-754 doubles on
  the small whole numbers the examples use; no theorem about all hosts depends on it.
\<close>

fun exact_op :: "(rat \<Rightarrow> rat \<Rightarrow> rat) \<Rightarrow> pyfloat \<Rightarrow> pyfloat \<Rightarrow> pyfloat" where
  "exact_op f (Finite x) (Finite y) = Finite (f x y)"
| "exact_op f _ _ = NaN"

definition example_str :: "pyfloat \<Rightarrow> string" where
  "example_str x =
     (case x of
        Finite q \<Rightarrow>
          (if q = of_int \<lfloor>q\<rfloor> then
             (if q < 0 then ''-'' else []) @ str_nat (nat \<bar>\<lfloor>q\<rfloor>\<bar>) @ ''.0''
           else ''?'')
      | NegZero \<Rightarrow> ''-0.0''
      | PosInf \<Rightarrow> ''inf''
      | NegInf \<Rightarrow> ''-inf''
      | NaN \<Rightarrow> ''nan'')"

fun digits_value :: "nat \<Rightarrow> string \<Rightarrow> nat" where
  "digits_value acc [] = acc"
| "digits_value acc (c # cs) = digits_value (10 * acc + (of_char c - 48)) cs"

definition example_float :: "string \<Rightarrow> pyfloat" where
  "example_float s =
     (let whole = takeWhile (\<lambda>c. c \<noteq> CHR ''.'') s;
          frac = drop 1 (dropWhile (\<lambda>c. c \<noteq> CHR ''.'') s)
      in Finite (of_nat (digits_value 0 whole)
                 + of_nat (digits_value 0 frac) / 10 ^ length frac))"

definition example_host :: host where
  "example_host =
     \<lparr>float_add = exact_op (+), float_sub = exact_op (-), float_mul = exact_op (*),
      float_truediv = exact_op (/), float_str = example_str,
      float_of_str = example_float, time_time = (\<lambda>n. Finite (of_nat n))\<rparr>"

section \<open>Example programs\<close>

text \<open>
  An example: the function object of \<open>fun f(a) { return a; }\<close>, called with one
  argument, returns it; the same body in an initializer whose closure binds \<open>this\<close>
  returns that \<open>this\<close>.
\<close>

definition identity_decl :: fun_decl where
  "identity_decl =
     FunDecl (Token IDENTIFIER ''f'' VNone 1) [Token IDENTIFIER ''a'' VNone 1]
       [Some (Return (Token RETURN ''return'' VNone 1)
          (Some (Variable 0 (Token IDENTIFIER ''a'' VNone 1))))]"

definition identity_state :: "bool \<Rightarrow> interpreter" where
  "identity_state init =
     new_interpreter
       \<lparr>locals := [0 \<mapsto> 0],
        environment_store :=
          [\<lparr>enclosing = None, env_values = [''this'' \<mapsto> VInstance 0]\<rparr>],
        function_store :=
          [\<lparr>fn_declaration = identity_decl, closure = 0, is_initializer = init\<rparr>]\<rparr>"

section \<open>Basic facts about the interpreter\<close>

lemma v_evaluate_at: "v_evaluate (interpreter_at H n) = evaluate H n"
  by (simp add: evaluate_def)

lemma v_execute_at: "v_execute (interpreter_at H n) = execute H n"
  by (simp add: execute_def)

lemma evaluate_0: "evaluate H 0 e st = None"
  by (simp add: evaluate_def)

lemma execute_0: "execute H 0 s st = None"
  by (simp add: execute_def)

lemma evaluate_Suc: "evaluate H (Suc n) e st = accept_expr H (interpreter_at H n) e st"
  by (simp add: evaluate_def)

lemma execute_Suc: "execute H (Suc n) s st = accept_stmt H (interpreter_at H n) s st"
  by (simp add: execute_def)

lemma evaluate_Literal: "evaluate H (Suc n) (Literal v) st = Some (Inr v, st)"
  by (simp add: evaluate_Suc accept_expr_def)

lemma evaluate_Binary:
  "evaluate H n l st = Some (Inr a, st1) \<Longrightarrow> evaluate H n r st1 = Some (Inr b, st2) \<Longrightarrow>
   evaluate H (Suc n) (Binary l operator r) st = Some (binary_op H st2 operator a b, st2)"
  by (simp add: evaluate_Suc accept_expr_def visit_binary_expr_def v_evaluate_at)

lemma evaluate_Logical:
  "evaluate H (Suc n) (Logical l operator r) st =
     (case evaluate H n l st of
        None \<Rightarrow> None
      | Some (Inl x, st1) \<Rightarrow> Some (Inl x, st1)
      | Some (Inr left, st1) \<Rightarrow>
          (if ttype operator = OR then
             (if is_truthy left then Some (Inr left, st1) else evaluate H n r st1)
           else
             (if \<not> is_truthy left then Some (Inr left, st1) else evaluate H n r st1)))"
  by (simp add: evaluate_Suc accept_expr_def visit_logical_expr_def v_evaluate_at
      split: option.splits prod.splits sum.splits)

lemma evaluate_Set:
  "evaluate H (Suc n) (Set obj name val) st =
     visit_set_expr (interpreter_at H n) obj name val st"
  by (simp add: evaluate_Suc accept_expr_def)

section \<open>Equality\<close>

lemma float_eq_NaN: "\<not> float_eq NaN y" "\<not> float_eq x NaN"
  by (simp_all add: float_eq_def split: option.splits)

lemma float_eq_Finite: "float_eq (Finite p) (Finite q) \<longleftrightarrow> p = q"
  by (simp add: float_eq_def)

lemma float_eq_zero: "float_eq y (Finite 0) \<longleftrightarrow> y = Finite 0 \<or> y = NegZero"
  by (cases y) (auto simp: float_eq_def)

text \<open>
  Away from the pairs of a boolean and a number, \<open>is_equal\<close> is the equality of the
  specification.
\<close>

lemma is_equal_spec_equal:
  "\<not> (is_bool a \<and> is_float b) \<Longrightarrow> \<not> (is_float a \<and> is_bool b) \<Longrightarrow>
   is_equal a b = spec_equal a b"
  by (cases a; cases b) (simp_all add: is_equal_def py_eq_def spec_equal_def)

lemma is_equal_bool_number:
  "is_equal (VBool p) (VFloat y) = float_eq (Finite (if p then 1 else 0)) y"
  "is_equal (VFloat x) (VBool q) = float_eq x (Finite (if q then 1 else 0))"
  by (simp_all add: is_equal_def py_eq_def int_of_bool_def)

text \<open>
  Claim C1: \<open>==\<close> never raises and is true only of two values of the same variant that
  are equal within it; in particular no boolean equals a number. The code departs from
  it: \<open>is_equal\<close> hands every pair without \<open>None\<close> on the left to Python's \<open>==\<close>, for
  which \<open>True == 1.0\<close> holds, so the Lox expression \<open>true == 1\<close> evaluates to \<open>true\<close>.
\<close>

theorem true_equals_one:
  "evaluate example_host (Suc (Suc 0))
     (Binary (Literal (VBool True)) (Token EQUAL_EQUAL ''=='' VNone 1)
        (Literal (VFloat (Finite 1)))) new_interpreter
   = Some (Inr (VBool True), new_interpreter)
   \<and> \<not> spec_equal (VBool True) (VFloat (Finite 1))"
  by (simp add: evaluate_Binary [OF evaluate_Literal evaluate_Literal] binary_op_def
      Token_def is_equal_def py_eq_def int_of_bool_def float_eq_def spec_equal_def)

section \<open>Environments\<close>

lemma outward_None: "(outward es ^^ d) None = None"
  by (induction d) (simp_all add: outward_def)

lemma ancestor_funpow:
  "(outward es ^^ d) x = Some a \<Longrightarrow> ancestor es x d = Inr (Some a)"
proof (induction d arbitrary: x)
  case 0
  then show ?case by simp
next
  case (Suc d)
  show ?case
  proof (cases x)
    case None
    have "outward es None = None" by (simp add: outward_def)
    with Suc.prems None have "(outward es ^^ d) None = Some a"
      by (simp add: funpow_swap1)
    then show ?thesis by (simp add: outward_None)
  next
    case (Some r)
    from Suc.prems have "(outward es ^^ d) (outward es x) = Some a"
      by (simp add: funpow_swap1)
    then have "ancestor es (outward es x) d = Inr (Some a)" by (rule Suc.IH)
    with Some show ?thesis by (simp add: outward_def)
  qed
qed

text \<open>
  Claim C6: when \<open>d\<close> does not exceed the length of the enclosing chain of \<open>e\<close>, that is
  when \<open>d\<close> hops outward from \<open>e\<close> reach an environment \<open>a\<close>, \<open>ancestor\<close> returns \<open>a\<close>
  (and \<open>e\<close> itself for distance 0); \<open>get_at\<close> reads the map of \<open>a\<close> alone, raising when
  the name is not in it whatever the environments further out hold; \<open>assign_at\<close> writes
  into the map of \<open>a\<close> and leaves every other environment as it was.
\<close>

theorem ancestor_exact_hops:
  assumes "hops es e d = Some a"
  shows "ancestor es (Some e) 0 = Inr (Some e)
     \<and> ancestor es (Some e) d = Inr (Some a)
     \<and> get_at es e d name =
         (case env_values (es ! a) name of
            None \<Rightarrow> Inl (PyError ''KeyError'')
          | Some v \<Rightarrow> Inr v)
     \<and> assign_at es e d tok v =
         Inr (es[a := (es ! a)\<lparr>env_values := (env_values (es ! a))(lexeme tok \<mapsto> v)\<rparr>])
     \<and> (\<forall>es'. assign_at es e d tok v = Inr es' \<longrightarrow>
           length es' = length es \<and> (\<forall>b. b \<noteq> a \<longrightarrow> es' ! b = es ! b))"
proof -
  from assms have "ancestor es (Some e) d = Inr (Some a)"
    unfolding hops_def by (rule ancestor_funpow)
  then show ?thesis
    by (auto simp: get_at_def assign_at_def env_define_def)
qed

theorem ancestor_exact_hops_witness:
  "hops [\<lparr>enclosing = None, env_values = [''a'' \<mapsto> VBool True]\<rparr>,
         \<lparr>enclosing = Some 0, env_values = [''a'' \<mapsto> VBool False]\<rparr>] 1 1 = Some 0
   \<and> get_at [\<lparr>enclosing = None, env_values = [''a'' \<mapsto> VBool True]\<rparr>,
         \<lparr>enclosing = Some 0, env_values = [''a'' \<mapsto> VBool False]\<rparr>] 1 1 ''a''
       = Inr (VBool True)
   \<and> get_at [\<lparr>enclosing = None, env_values = [''a'' \<mapsto> VBool True]\<rparr>,
         \<lparr>enclosing = Some 0, env_values = Map.empty\<rparr>] 1 0 ''a''
       = Inl (PyError ''KeyError'')"
proof -
  have h: "hops [\<lparr>enclosing = None, env_values = [''a'' \<mapsto> VBool True]\<rparr>,
         \<lparr>enclosing = Some 0, env_values = [''a'' \<mapsto> VBool False]\<rparr>] 1 1 = Some 0"
    by (simp add: hops_def outward_def)
  have k: "hops [\<lparr>enclosing = None, env_values = [''a'' \<mapsto> VBool True]\<rparr>,
         \<lparr>enclosing = Some 0, env_values = Map.empty\<rparr>] 1 0 = Some 1"
    by (simp add: hops_def)
  show ?thesis
    using h ancestor_exact_hops [OF h, of "''a''"] ancestor_exact_hops [OF k, of "''a''"]
    by simp
qed

section \<open>Function calls\<close>

lemma env_define_nth:
  "env < length es \<Longrightarrow>
   env_define es env name v ! env = (es ! env)\<lparr>env_values := (env_values (es ! env))(name \<mapsto> v)\<rparr>"
  by (simp add: env_define_def)

lemma env_define_length: "length (env_define es env name v) = length es"
  by (simp add: env_define_def)

lemma map_upd_add_rev:
  "m(k \<mapsto> v) ++ map_of (rev zs) = m ++ map_of (rev ((k, v) # zs))"
  by (rule ext) (simp add: map_add_def split: option.splits)

text \<open>
  The parameter loop binds each parameter to the argument at its position; where a name
  occurs twice, the later binding stands.
\<close>

lemma define_params_zip:
  "length params = length arguments \<Longrightarrow> env < length es \<Longrightarrow>
   define_params es env params arguments =
     (None, es[env := (es ! env)\<lparr>env_values :=
        env_values (es ! env) ++ map_of (rev (zip (map lexeme params) arguments))\<rparr>])"
proof (induction params arguments arbitrary: es rule: list_induct2)
  case Nil
  then show ?case by simp
next
  case (Cons p ps a as)
  let ?E = "env_define es env (lexeme p) a"
  let ?M = "map_of (rev (zip (map lexeme ps) as))"
  have len: "env < length ?E"
    using Cons.prems by (simp add: env_define_length)
  have nth: "?E ! env = (es ! env)\<lparr>env_values := (env_values (es ! env))(lexeme p \<mapsto> a)\<rparr>"
    using Cons.prems by (rule env_define_nth)
  have upd: "?E[env := x] = es[env := x]" for x
    by (simp add: env_define_def)
  have "define_params es env (p # ps) (a # as) = define_params ?E env ps as"
    by simp
  also have "\<dots> = (None, ?E[env := (?E ! env)\<lparr>env_values := env_values (?E ! env) ++ ?M\<rparr>])"
    by (rule Cons.IH [OF len])
  also have "\<dots> = (None, es[env := (es ! env)\<lparr>env_values :=
        (env_values (es ! env))(lexeme p \<mapsto> a) ++ ?M\<rparr>])"
    by (simp add: nth upd)
  also have "\<dots> = (None, es[env := (es ! env)\<lparr>env_values :=
        env_values (es ! env) ++ map_of (rev (zip (map lexeme (p # ps)) (a # as)))\<rparr>])"
    by (simp only: map_upd_add_rev list.map zip_Cons_Cons)
  finally show ?case .
qed

lemma get_at_0:
  "get_at es e 0 name =
     (case env_values (es ! e) name of None \<Rightarrow> Inl (PyError ''KeyError'') | Some v \<Rightarrow> Inr v)"
  by (simp add: get_at_def)

text \<open>
  Claim C4: a call of a function object with as many arguments as it has parameters (the
  only calls \<open>visit_call_expr\<close> and \<open>LoxClass.call\<close> make) creates a new environment,
  the last of the store, whose parent is the closure and whose map binds each parameter
  to its argument, and runs the body as a block in it. If a \<open>ReturnException\<close> comes
  out, the call returns its payload, but an initializer returns the \<open>this\<close> found in
  the map of its closure itself (depth 0); if the body completes, an initializer returns
  that \<open>this\<close> and any other function returns nil. Any other exception passes through.
\<close>

theorem function_call_semantics:
  assumes len: "length arguments = length (decl_params (fn_declaration (function_store st ! f)))"
  shows "function_call V f arguments st =
     (let fn = function_store st ! f;
          env = length (environment_store st);
          this = (\<lambda>st1. case env_values (environment_store st1 ! closure fn) ''this'' of
                           None \<Rightarrow> Inl (PyError ''KeyError'')
                         | Some t \<Rightarrow> Inr t)
      in case execute_block V (decl_body (fn_declaration fn)) env
                (st\<lparr>environment_store := environment_store st @
                     [\<lparr>enclosing = Some (closure fn),
                       env_values = map_of (rev (zip (map lexeme
                         (decl_params (fn_declaration fn))) arguments))\<rparr>]\<rparr>) of
           None \<Rightarrow> None
         | Some (Inl (ReturnException v), st1) \<Rightarrow>
             if is_initializer fn then Some (this st1, st1) else Some (Inr v, st1)
         | Some (Inl x, st1) \<Rightarrow> Some (Inl x, st1)
         | Some (Inr u, st1) \<Rightarrow>
             if is_initializer fn then Some (this st1, st1) else Some (Inr VNone, st1))"
proof -
  let ?fn = "function_store st ! f"
  let ?es = "environment_store st @ [\<lparr>enclosing = Some (closure ?fn), env_values = Map.empty\<rparr>]"
  let ?env = "length (environment_store st)"
  have dp: "define_params ?es ?env (decl_params (fn_declaration ?fn)) arguments =
      (None, environment_store st @
         [\<lparr>enclosing = Some (closure ?fn),
           env_values = map_of (rev (zip (map lexeme (decl_params (fn_declaration ?fn)))
             arguments))\<rparr>])"
    using len by (subst define_params_zip) simp_all
  show ?thesis
    by (simp add: function_call_def new_environment_def dp get_at_0 Let_def
        split: option.splits prod.splits sum.splits exn.splits)
qed

theorem function_call_semantics_witness:
  "map_option fst
     (function_call (interpreter_at example_host (Suc (Suc 0))) 0 [VStr ''x'']
        (identity_state False)) = Some (Inr (VStr ''x''))
   \<and> map_option fst
     (function_call (interpreter_at example_host (Suc (Suc 0))) 0 [VStr ''x'']
        (identity_state True)) = Some (Inr (VInstance 0))"
proof -
  have len: "length [VStr ''x''] =
      length (decl_params (fn_declaration (function_store (identity_state b) ! 0)))" for b
    by (simp add: identity_state_def identity_decl_def)
  show ?thesis
    unfolding function_call_semantics [OF len]
    by (simp add: identity_state_def identity_decl_def new_interpreter_def
        execute_block_def accept_stmt_def accept_expr_def visit_return_stmt_def
        lookup_variable_def get_at_def Token_def Let_def)
qed

section \<open>Operators\<close>

lemma binary_op_plus:
  "ttype operator = PLUS \<Longrightarrow>
   binary_op H st operator a b =
     (case a of
        VFloat x \<Rightarrow>
          (case b of
             VFloat y \<Rightarrow> Inr (VFloat (float_add H x y))
           | VStr t \<Rightarrow> Inr (VStr (stringify H st a @ stringify H st b))
           | _ \<Rightarrow> Inl (RuntimeError operator
                 ''Operands must be two numbers or at least one string.''))
      | VStr s \<Rightarrow> Inr (VStr (stringify H st a @ stringify H st b))
      | _ \<Rightarrow>
          (case b of
             VStr t \<Rightarrow> Inr (VStr (stringify H st a @ stringify H st b))
           | _ \<Rightarrow> Inl (RuntimeError operator
                 ''Operands must be two numbers or at least one string.'')))"
  by (cases a; cases b) (simp_all add: binary_op_def)

text \<open>
  Claim C7: with both operands evaluated, \<open>+\<close> on two numbers is the host's sum of
  floats; otherwise, if at least one operand is a string, the result is the two
  stringifications joined; any other pair raises a runtime error at the operator. The
  stringification is that of the specification: \<open>nil\<close>, \<open>true\<close>, \<open>false\<close>, the string
  itself, the host's decimal form of a number without a final \<open>.0\<close>, \<open><native fn>\<close>,
  \<open><fn NAME>\<close>, \<open><class NAME>\<close>, \<open><NAME instance>\<close>.
\<close>

theorem plus_operator:
  assumes l: "evaluate H n l st = Some (Inr a, sa)"
    and r: "evaluate H n r sa = Some (Inr b, sb)"
    and op: "ttype operator = PLUS"
  shows "(\<forall>x y. a = VFloat x \<and> b = VFloat y \<longrightarrow>
            evaluate H (Suc n) (Binary l operator r) st
              = Some (Inr (VFloat (float_add H x y)), sb))
     \<and> (\<not> (is_float a \<and> is_float b) \<and> (is_str a \<or> is_str b) \<longrightarrow>
            evaluate H (Suc n) (Binary l operator r) st
              = Some (Inr (VStr (stringify H sb a @ stringify H sb b)), sb))
     \<and> (\<not> (is_float a \<and> is_float b) \<and> \<not> is_str a \<and> \<not> is_str b \<longrightarrow>
            evaluate H (Suc n) (Binary l operator r) st
              = Some (Inl (RuntimeError operator
                  ''Operands must be two numbers or at least one string.''), sb))
     \<and> stringify H sb VNone = ''nil''
     \<and> stringify H sb (VBool True) = ''true''
     \<and> stringify H sb (VBool False) = ''false''
     \<and> stringify H sb (VStr s) = s
     \<and> stringify H sb (VFloat z) =
         (if endswith (float_str H z) ''.0''
          then take (length (float_str H z) - 2) (float_str H z) else float_str H z)
     \<and> stringify H sb VClock = ''<native fn>''
     \<and> stringify H sb (VFunction f) =
         ''<fn '' @ lexeme (decl_name (fn_declaration (function_store sb ! f))) @ ''>''
     \<and> stringify H sb (VClass c) = ''<class '' @ class_name (class_store sb ! c) @ ''>''
     \<and> stringify H sb (VInstance i) =
         ''<'' @ class_name (class_store sb ! klass (instance_store sb ! i)) @ '' instance>''"
proof -
  have e: "evaluate H (Suc n) (Binary l operator r) st = Some (binary_op H sb operator a b, sb)"
    using l r by (rule evaluate_Binary)
  have 1: "\<forall>x y. a = VFloat x \<and> b = VFloat y \<longrightarrow>
            evaluate H (Suc n) (Binary l operator r) st
              = Some (Inr (VFloat (float_add H x y)), sb)"
    by (simp add: e binary_op_plus [OF op])
  have 2: "\<not> (is_float a \<and> is_float b) \<and> (is_str a \<or> is_str b) \<longrightarrow>
            evaluate H (Suc n) (Binary l operator r) st
              = Some (Inr (VStr (stringify H sb a @ stringify H sb b)), sb)"
    by (cases a; cases b) (simp_all add: e binary_op_plus [OF op])
  have 3: "\<not> (is_float a \<and> is_float b) \<and> \<not> is_str a \<and> \<not> is_str b \<longrightarrow>
            evaluate H (Suc n) (Binary l operator r) st
              = Some (Inl (RuntimeError operator
                  ''Operands must be two numbers or at least one string.''), sb)"
    by (cases a; cases b) (simp_all add: e binary_op_plus [OF op])
  have 4: "stringify H sb (VFloat z) =
         (if endswith (float_str H z) ''.0''
          then take (length (float_str H z) - 2) (float_str H z) else float_str H z)"
    by (simp add: stringify_def Let_def)
  show ?thesis
    using 1 2 3 4 by (simp add: stringify_def)
qed

theorem plus_operator_witness:
  "evaluate example_host (Suc (Suc 0))
     (Binary (Literal (VStr ''a'')) (Token PLUS ''+'' VNone 1) (Literal (VBool True)))
     new_interpreter
   = Some (Inr (VStr ''atrue''), new_interpreter)
   \<and> evaluate example_host (Suc (Suc 0))
     (Binary (Literal VNone) (Token PLUS ''+'' VNone 1) (Literal (VBool True)))
     new_interpreter
   = Some (Inl (RuntimeError (Token PLUS ''+'' VNone 1)
        ''Operands must be two numbers or at least one string.''), new_interpreter)"
proof -
  have op: "ttype (Token PLUS ''+'' VNone 1) = PLUS" by (simp add: Token_def)
  have lit: "evaluate example_host (Suc 0) (Literal a) new_interpreter
      = Some (Inr a, new_interpreter)" for a
    by (rule evaluate_Literal)
  show ?thesis
    using plus_operator [OF lit [of "VStr ''a''"] lit [of "VBool True"] op]
      plus_operator [OF lit [of VNone] lit [of "VBool True"] op]
    by simp
qed

text \<open>
  Claim C8: the left operand is evaluated first and what it raises is raised; \<open>or\<close> with
  a truthy left value and \<open>and\<close> with a falsy one return that value in the state the left
  operand left, without evaluating the right operand; otherwise the result is the right
  operand's. Exactly nil and false are falsy; 0 and the empty string are truthy.
\<close>

theorem visit_logical_expr_short_circuit:
  "(evaluate H n l st = Some (Inl x, sa) \<longrightarrow>
      evaluate H (Suc n) (Logical l operator r) st = Some (Inl x, sa))
   \<and> (evaluate H n l st = Some (Inr a, sa) \<and> ttype operator = OR \<and> is_truthy a \<longrightarrow>
      evaluate H (Suc n) (Logical l operator r) st = Some (Inr a, sa))
   \<and> (evaluate H n l st = Some (Inr a, sa) \<and> ttype operator = AND \<and> \<not> is_truthy a \<longrightarrow>
      evaluate H (Suc n) (Logical l operator r) st = Some (Inr a, sa))
   \<and> (evaluate H n l st = Some (Inr a, sa) \<and> ttype operator = OR \<and> \<not> is_truthy a \<longrightarrow>
      evaluate H (Suc n) (Logical l operator r) st = evaluate H n r sa)
   \<and> (evaluate H n l st = Some (Inr a, sa) \<and> ttype operator = AND \<and> is_truthy a \<longrightarrow>
      evaluate H (Suc n) (Logical l operator r) st = evaluate H n r sa)
   \<and> (is_truthy v \<longleftrightarrow> v \<noteq> VNone \<and> v \<noteq> VBool False)
   \<and> is_truthy (VFloat (Finite 0)) \<and> is_truthy (VStr [])"
proof -
  have "is_truthy v \<longleftrightarrow> v \<noteq> VNone \<and> v \<noteq> VBool False"
    by (cases v) auto
  then show ?thesis
    by (simp add: evaluate_Logical)
qed

theorem visit_logical_expr_short_circuit_witness:
  "evaluate example_host (Suc (Suc 0))
     (Logical (Literal (VFloat (Finite 0))) (Token OR ''or'' VNone 1)
        (Variable 0 (Token IDENTIFIER ''undefined'' VNone 1))) new_interpreter
   = Some (Inr (VFloat (Finite 0)), new_interpreter)
   \<and> evaluate example_host (Suc (Suc 0))
     (Logical (Literal VNone) (Token AND ''and'' VNone 1)
        (Variable 0 (Token IDENTIFIER ''undefined'' VNone 1))) new_interpreter
   = Some (Inr VNone, new_interpreter)
   \<and> evaluate example_host (Suc (Suc 0))
     (Logical (Literal VNone) (Token OR ''or'' VNone 1) (Literal (VStr []))) new_interpreter
   = Some (Inr (VStr []), new_interpreter)"
  using visit_logical_expr_short_circuit [where H = example_host and n = "Suc 0"
      and l = "Literal (VFloat (Finite 0))" and st = new_interpreter
      and a = "VFloat (Finite 0)" and sa = new_interpreter
      and operator = "Token OR ''or'' VNone 1"
      and r = "Variable 0 (Token IDENTIFIER ''undefined'' VNone 1)"]
    visit_logical_expr_short_circuit [where H = example_host and n = "Suc 0"
      and l = "Literal VNone" and st = new_interpreter
      and a = VNone and sa = new_interpreter
      and operator = "Token AND ''and'' VNone 1"
      and r = "Variable 0 (Token IDENTIFIER ''undefined'' VNone 1)"]
    visit_logical_expr_short_circuit [where H = example_host and n = "Suc 0"
      and l = "Literal VNone" and st = new_interpreter
      and a = VNone and sa = new_interpreter
      and operator = "Token OR ''or'' VNone 1"
      and r = "Literal (VStr [])"]
  by (simp add: evaluate_Literal Token_def)

lemma binary_op_slash:
  "ttype operator = SLASH \<Longrightarrow>
   binary_op H st operator a b =
     (case check_number_operands operator a b of
        Inl x \<Rightarrow> Inl x
      | Inr (x, y) \<Rightarrow>
          if float_eq y (Finite 0) then Inl (RuntimeError operator ''Division by zero.'')
          else Inr (VFloat (float_truediv H x y)))"
  by (simp add: binary_op_def)

text \<open>
  Claim C9: with both operands evaluated, \<open>/\<close> on two numbers raises a runtime error
  when the right one is zero (\<open>0.0\<close> or \<open>-0.0\<close>) and returns the host's quotient of
  floats otherwise; an operand that is not a number raises a runtime error, and nothing
  is divided.
\<close>

theorem division_by_zero_raises:
  assumes l: "evaluate H n l st = Some (Inr a, sa)"
    and r: "evaluate H n r sa = Some (Inr b, sb)"
    and op: "ttype operator = SLASH"
  shows "(\<forall>x y. a = VFloat x \<and> b = VFloat y \<and> (y = Finite 0 \<or> y = NegZero) \<longrightarrow>
            evaluate H (Suc n) (Binary l operator r) st
              = Some (Inl (RuntimeError operator ''Division by zero.''), sb))
     \<and> (\<forall>x y. a = VFloat x \<and> b = VFloat y \<and> y \<noteq> Finite 0 \<and> y \<noteq> NegZero \<longrightarrow>
            evaluate H (Suc n) (Binary l operator r) st
              = Some (Inr (VFloat (float_truediv H x y)), sb))
     \<and> (\<not> is_float a \<or> \<not> is_float b \<longrightarrow>
            evaluate H (Suc n) (Binary l operator r) st
              = Some (Inl (RuntimeError operator ''Operands must be numbers.''), sb))"
proof -
  have e: "evaluate H (Suc n) (Binary l operator r) st = Some (binary_op H sb operator a b, sb)"
    using l r by (rule evaluate_Binary)
  have 1: "\<forall>x y. a = VFloat x \<and> b = VFloat y \<and> (y = Finite 0 \<or> y = NegZero) \<longrightarrow>
            evaluate H (Suc n) (Binary l operator r) st
              = Some (Inl (RuntimeError operator ''Division by zero.''), sb)"
    by (auto simp: e binary_op_slash [OF op] check_number_operands_def float_eq_zero)
  have 2: "\<forall>x y. a = VFloat x \<and> b = VFloat y \<and> y \<noteq> Finite 0 \<and> y \<noteq> NegZero \<longrightarrow>
            evaluate H (Suc n) (Binary l operator r) st
              = Some (Inr (VFloat (float_truediv H x y)), sb)"
    by (auto simp: e binary_op_slash [OF op] check_number_operands_def float_eq_zero)
  have 3: "\<not> is_float a \<or> \<not> is_float b \<longrightarrow>
            evaluate H (Suc n) (Binary l operator r) st
              = Some (Inl (RuntimeError operator ''Operands must be numbers.''), sb)"
    by (cases a; cases b)
       (simp_all add: e binary_op_slash [OF op] check_number_operands_def)
  show ?thesis using 1 2 3 by blast
qed

theorem division_by_zero_raises_witness:
  "evaluate example_host (Suc (Suc 0))
     (Binary (Literal (VFloat (Finite 1))) (Token SLASH ''/'' VNone 1)
        (Literal (VFloat (Finite 0)))) new_interpreter
   = Some (Inl (RuntimeError (Token SLASH ''/'' VNone 1) ''Division by zero.''),
           new_interpreter)
   \<and> evaluate example_host (Suc (Suc 0))
     (Binary (Literal (VFloat (Finite 1))) (Token SLASH ''/'' VNone 1)
        (Literal (VFloat (Finite 2)))) new_interpreter
   = Some (Inr (VFloat (Finite (1 / 2))), new_interpreter)
   \<and> evaluate example_host (Suc (Suc 0))
     (Binary (Literal (VFloat (Finite 1))) (Token SLASH ''/'' VNone 1)
        (Literal (VBool True))) new_interpreter
   = Some (Inl (RuntimeError (Token SLASH ''/'' VNone 1) ''Operands must be numbers.''),
           new_interpreter)"
proof -
  have op: "ttype (Token SLASH ''/'' VNone 1) = SLASH" by (simp add: Token_def)
  have lit: "evaluate example_host (Suc 0) (Literal a) new_interpreter
      = Some (Inr a, new_interpreter)" for a
    by (rule evaluate_Literal)
  show ?thesis
    using division_by_zero_raises
        [OF lit [of "VFloat (Finite 1)"] lit [of "VFloat (Finite 0)"] op]
      division_by_zero_raises
        [OF lit [of "VFloat (Finite 1)"] lit [of "VFloat (Finite 2)"] op]
      division_by_zero_raises
        [OF lit [of "VFloat (Finite 1)"] lit [of "VBool True"] op]
    by (simp add: example_host_def)
qed

section \<open>Property assignment\<close>

text \<open>
  Claim C10: when the object of a Set expression evaluates to a value that is not an
  instance, the runtime error is raised in the very state the object expression left:
  the value expression is not evaluated and no field is written. When the object is an
  instance, the value is evaluated next, the field of that instance is set to it, nothing
  else in the state changes, and the expression evaluates to the value.
\<close>

theorem set_expr_atomic:
  "(evaluate H n obj st = Some (Inr v, sa) \<and> (\<forall>i. v \<noteq> VInstance i) \<longrightarrow>
      evaluate H (Suc n) (Set obj name val) st
        = Some (Inl (RuntimeError name ''Only instances have fields.''), sa))
   \<and> (evaluate H n obj st = Some (Inr (VInstance i), sa)
        \<and> evaluate H n val sa = Some (Inr w, sb) \<longrightarrow>
      evaluate H (Suc n) (Set obj name val) st = Some (Inr w, instance_set i name w sb))
   \<and> (i < length (instance_store sb) \<longrightarrow>
        instance_fields (instance_store (instance_set i name w sb) ! i)
          = (instance_fields (instance_store sb ! i))(lexeme name \<mapsto> w))
   \<and> (\<forall>j. j \<noteq> i \<longrightarrow>
        instance_store (instance_set i name w sb) ! j = instance_store sb ! j)
   \<and> instance_set i name w sb
        = sb\<lparr>instance_store := instance_store (instance_set i name w sb)\<rparr>"
proof -
  have 1: "evaluate H n obj st = Some (Inr v, sa) \<and> (\<forall>i. v \<noteq> VInstance i) \<longrightarrow>
      evaluate H (Suc n) (Set obj name val) st
        = Some (Inl (RuntimeError name ''Only instances have fields.''), sa)"
    by (cases v) (simp_all add: evaluate_Set visit_set_expr_def v_evaluate_at)
  have 2: "evaluate H n obj st = Some (Inr (VInstance i), sa)
        \<and> evaluate H n val sa = Some (Inr w, sb) \<longrightarrow>
      evaluate H (Suc n) (Set obj name val) st = Some (Inr w, instance_set i name w sb)"
    by (simp add: evaluate_Set visit_set_expr_def v_evaluate_at)
  show ?thesis
    using 1 2 by (simp add: instance_set_def)
qed

theorem set_expr_atomic_witness:
  "evaluate example_host (Suc (Suc 0))
     (Set (Literal (VStr ''s'')) (Token IDENTIFIER ''x'' VNone 1) (Literal (VBool True)))
     new_interpreter
   = Some (Inl (RuntimeError (Token IDENTIFIER ''x'' VNone 1)
        ''Only instances have fields.''), new_interpreter)
   \<and> map_option fst (evaluate example_host (Suc (Suc 0))
     (Set (Literal (VInstance 0)) (Token IDENTIFIER ''x'' VNone 1) (Literal (VBool True)))
     (new_interpreter\<lparr>instance_store := [\<lparr>klass = 0, instance_fields = Map.empty\<rparr>]\<rparr>))
   = Some (Inr (VBool True))"
  using set_expr_atomic [where H = example_host and n = "Suc 0"
      and obj = "Literal (VStr ''s'')" and st = new_interpreter and v = "VStr ''s''"
      and sa = new_interpreter and name = "Token IDENTIFIER ''x'' VNone 1"
      and val = "Literal (VBool True)"]
    set_expr_atomic [where H = example_host and n = "Suc 0"
      and obj = "Literal (VInstance 0)" and i = 0 and w = "VBool True"
      and st = "new_interpreter\<lparr>instance_store := [\<lparr>klass = 0, instance_fields = Map.empty\<rparr>]\<rparr>"
      and sa = "new_interpreter\<lparr>instance_store := [\<lparr>klass = 0, instance_fields = Map.empty\<rparr>]\<rparr>"
      and sb = "new_interpreter\<lparr>instance_store := [\<lparr>klass = 0, instance_fields = Map.empty\<rparr>]\<rparr>"
      and name = "Token IDENTIFIER ''x'' VNone 1"
      and val = "Literal (VBool True)"]
  by (simp add: evaluate_Literal)

end
